theory Spec2Isabelle
  imports Complex_Main "HOL-Library.AList"
begin

section \<open>Data model of the dashboard (src/app/page.tsx, lines 8-60)\<close>

text \<open>
  The numbers of the store (prices, volumes, profits) are modelled as real numbers and
  their arithmetic is the exact one: the code's doubles round every operation, overflow to
  an infinity and have NaN. The sparkline is modelled on the doubles themselves (type
  \<open>jsnum\<close> below), since what is said of it depends on them.
  Timestamps (the values of \<^verbatim>\<open>Date.now()\<close>) are natural numbers, milliseconds.
  An optional field \<^verbatim>\<open>f?: T\<close> is a field of type \<open>T option\<close>, \<open>None\<close> when the
  field is absent.
\<close>

text \<open>The type \<^verbatim>\<open>"up" | "down" | null\<close> of \<^verbatim>\<open>priceChange\<close> and \<^verbatim>\<open>tickDirection\<close>.\<close>

datatype direction = Up | Down | Null

text \<open>The type \<^verbatim>\<open>number | string\<close> of \<^verbatim>\<open>Position.profit\<close>.\<close>

datatype num_or_str = Num real | Str string

text \<open>
  \<^verbatim>\<open>Number(v)\<close>: the identity on a number; a string is parsed by the JavaScript
  runtime, which the functions below take as the parameter \<open>parse\<close>.
\<close>

fun Number :: "(string \<Rightarrow> real) \<Rightarrow> num_or_str \<Rightarrow> real" where
  "Number parse (Num x) = x"
| "Number parse (Str s) = parse s"

record AccountInfo =
  name :: "string option"
  login :: "string option"
  balance :: "real option"
  equity :: "real option"
  marginLevel :: "real option"

record Position =
  pos_id :: string
  symbol :: string
  pos_type :: string
  volume :: real
  openPrice :: real
  currentPrice :: real
  profit :: num_or_str
  lastUpdate :: "nat option"
  priceChange :: "direction option"
  tickDirection :: "direction option"
  lastTickTime :: "nat option"
  isRealData :: "bool option"

record Order =
  order_id :: string
  order_symbol :: string
  order_type :: string
  order_volume :: real
  order_openPrice :: real
  order_state :: string

record AccountData =
  accountId :: string
  connected :: "bool option"
  connectedToBroker :: "bool option"
  accountInfo :: "AccountInfo option"
  positions :: "Position list option"
  orders :: "Order list option"

record PnLHistoryItem =
  timestamp :: nat
  val :: real

text \<open>
  The payload \<^verbatim>\<open>data.position\<close> of a \<^verbatim>\<open>positionUpdated\<close> message: an object that
  supplies some of the fields of a position. \<open>None\<close> is a field the payload does not
  have.
\<close>

record PositionPatch =
  p_id :: "string option"
  p_symbol :: "string option"
  p_type :: "string option"
  p_volume :: "real option"
  p_openPrice :: "real option"
  p_currentPrice :: "real option"
  p_profit :: "num_or_str option"
  p_lastUpdate :: "nat option"
  p_priceChange :: "direction option"
  p_tickDirection :: "direction option"
  p_lastTickTime :: "nat option"
  p_isRealData :: "bool option"

text \<open>
  A parsed WebSocket message \<^verbatim>\<open>data\<close> (it is of type \<^verbatim>\<open>any\<close> in the source): the
  \<^verbatim>\<open>event\<close> tag and the properties the handlers read. \<open>None\<close> is a property the
  message does not have.
\<close>

record ws_data =
  ev_event :: string
  ev_accountId :: "string option"
  ev_positionId :: "string option"
  ev_position :: "PositionPatch option"
  ev_accountInformation :: "AccountInfo option"

section \<open>The reducers of the WebSocket handlers (lines 555-644)\<close>

text \<open>\<^verbatim>\<open>account.positions || []\<close>\<close>

definition positions_or_empty :: "AccountData \<Rightarrow> Position list" where
  "positions_or_empty account = (case positions account of None \<Rightarrow> [] | Some ps \<Rightarrow> ps)"

text \<open>
  \<^verbatim>\<open>updateAccountInfo\<close>, the function given to \<^verbatim>\<open>setAccounts\<close>:
  \<^verbatim>\<open>accountInfo: data.accountInformation || account.accountInfo\<close> on the accounts whose
  id is the message's.
\<close>

definition updateAccountInfo :: "ws_data \<Rightarrow> AccountData list \<Rightarrow> AccountData list" where
  "updateAccountInfo d prevAccounts =
     map (\<lambda>account.
            if Some (accountId account) = ev_accountId d
            then account\<lparr>accountInfo :=
                   (case ev_accountInformation d of
                      Some info \<Rightarrow> Some info
                    | None \<Rightarrow> accountInfo account)\<rparr>
            else account)
         prevAccounts"

text \<open>The object spread \<^verbatim>\<open>{...pos, ...data.position}\<close>: every supplied field wins.\<close>

definition spread_position :: "Position \<Rightarrow> PositionPatch \<Rightarrow> Position" where
  "spread_position pos patch =
     \<lparr>pos_id = (case p_id patch of Some v \<Rightarrow> v | None \<Rightarrow> pos_id pos),
      symbol = (case p_symbol patch of Some v \<Rightarrow> v | None \<Rightarrow> symbol pos),
      pos_type = (case p_type patch of Some v \<Rightarrow> v | None \<Rightarrow> pos_type pos),
      volume = (case p_volume patch of Some v \<Rightarrow> v | None \<Rightarrow> volume pos),
      openPrice = (case p_openPrice patch of Some v \<Rightarrow> v | None \<Rightarrow> openPrice pos),
      currentPrice = (case p_currentPrice patch of Some v \<Rightarrow> v | None \<Rightarrow> currentPrice pos),
      profit = (case p_profit patch of Some v \<Rightarrow> v | None \<Rightarrow> profit pos),
      lastUpdate = (case p_lastUpdate patch of Some v \<Rightarrow> Some v | None \<Rightarrow> lastUpdate pos),
      priceChange = (case p_priceChange patch of Some v \<Rightarrow> Some v | None \<Rightarrow> priceChange pos),
      tickDirection =
        (case p_tickDirection patch of Some v \<Rightarrow> Some v | None \<Rightarrow> tickDirection pos),
      lastTickTime =
        (case p_lastTickTime patch of Some v \<Rightarrow> Some v | None \<Rightarrow> lastTickTime pos),
      isRealData = (case p_isRealData patch of Some v \<Rightarrow> Some v | None \<Rightarrow> isRealData pos)\<rparr>"

text \<open>
  \<^verbatim>\<open>data.position.currentPrice || pos.currentPrice\<close>: the payload's price unless it is
  absent or falsy (zero).
\<close>

definition newPrice :: "PositionPatch \<Rightarrow> Position \<Rightarrow> real" where
  "newPrice patch pos =
     (case p_currentPrice patch of
        None \<Rightarrow> currentPrice pos
      | Some c \<Rightarrow> if c = 0 then currentPrice pos else c)"

text \<open>The body of the inner \<^verbatim>\<open>positions.map\<close> for a position whose id matches (lines 582-603).\<close>

definition applyPositionUpdate :: "nat \<Rightarrow> PositionPatch \<Rightarrow> Position \<Rightarrow> Position" where
  "applyPositionUpdate now patch pos =
     (let np = newPrice patch pos;
          pc = (if np > currentPrice pos then Up
                else if np < currentPrice pos then Down
                else Null)
      in (spread_position pos patch)
           \<lparr>lastUpdate := Some now,
            priceChange := Some pc,
            tickDirection := Some Null,
            isRealData := Some True\<rparr>)"

text \<open>
  \<^verbatim>\<open>updatePositions\<close>, as the function it gives to \<^verbatim>\<open>setAccounts\<close>. \<open>now\<close> is the
  value of \<^verbatim>\<open>Date.now()\<close> while the message is handled. The third branch
  (\<^verbatim>\<open>positionsUpdated\<close>) rewrites the message's own \<^verbatim>\<open>positions\<close> and asks for a
  refresh of the account's details; it does not call \<^verbatim>\<open>setAccounts\<close>.
\<close>

definition updatePositions :: "nat \<Rightarrow> ws_data \<Rightarrow> AccountData list \<Rightarrow> AccountData list" where
  "updatePositions now d prevAccounts =
     (if ev_event d = ''positionUpdated'' \<and> ev_position d \<noteq> None then
        map (\<lambda>account.
               if Some (accountId account) \<noteq> ev_accountId d then account
               else account\<lparr>positions :=
                      Some (map (\<lambda>pos.
                                   if Some (pos_id pos) = ev_positionId d
                                   then applyPositionUpdate now (the (ev_position d)) pos
                                   else pos)
                                (positions_or_empty account))\<rparr>)
            prevAccounts
      else if ev_event d = ''positionRemoved'' then
        map (\<lambda>account.
               if Some (accountId account) \<noteq> ev_accountId d then account
               else account\<lparr>positions :=
                      Some (filter (\<lambda>p. Some (pos_id p) \<noteq> ev_positionId d)
                                   (positions_or_empty account))\<rparr>)
            prevAccounts
      else prevAccounts)"

section \<open>The interpolation ticker (lines 438-508)\<close>

text \<open>\<^verbatim>\<open>!position.lastUpdate\<close>: the field is absent, or it is zero.\<close>

definition no_lastUpdate :: "Position \<Rightarrow> bool" where
  "no_lastUpdate position = (case lastUpdate position of None \<Rightarrow> True | Some t \<Rightarrow> t = 0)"

text \<open>
  \<^verbatim>\<open>(Math.random() * 0.0004 + 0.0001) * (Math.random() > 0.5 ? 1 : -1)\<close>, with \<open>r1\<close>
  and \<open>r2\<close> the two values drawn.
\<close>

definition changePercent :: "real \<Rightarrow> real \<Rightarrow> real" where
  "changePercent r1 r2 = (r1 * 0.0004 + 0.0001) * (if r2 > 0.5 then 1 else - 1)"

text \<open>The price perturbation \<^verbatim>\<open>position.currentPrice * changePercent\<close> (line 463).\<close>

definition tickDelta :: "real \<Rightarrow> real \<Rightarrow> Position \<Rightarrow> real" where
  "tickDelta r1 r2 position = currentPrice position * changePercent r1 r2"

text \<open>
  Lines 459-491: the interpolated position, for a position that has a \<^verbatim>\<open>lastUpdate\<close>.
  The sum and the product are the exact ones. In the code they are rounded to doubles, so
  that a small \<open>d * volume\<close> can leave a large profit as it is, and \<^verbatim>\<open>Number\<close> of a
  string that is no number is NaN, which \<open>parse\<close> cannot return: the model gives the
  formula of the new profit, not an order between the old profit and the new one.
\<close>

definition tickPosition :: "(string \<Rightarrow> real) \<Rightarrow> real \<Rightarrow> real \<Rightarrow> nat \<Rightarrow> Position \<Rightarrow> Position" where
  "tickPosition parse r1 r2 now position =
     (let d = tickDelta r1 r2 position;
          np = currentPrice position + d;
          td = (if d > 0 then Up else if d < 0 then Down else Null);
          newProfit =
            (if pos_type position = ''POSITION_TYPE_BUY''
             then Number parse (profit position) + d * volume position
             else Number parse (profit position) - d * volume position)
      in position\<lparr>currentPrice := np,
                   profit := Num newProfit,
                   tickDirection := Some td,
                   lastTickTime := Some now,
                   isRealData := Some False\<rparr>)"

text \<open>
  \<^verbatim>\<open>account.positions.map(...)\<close> of the ticker. \<open>rnd\<close> is the sequence of the values
  of \<^verbatim>\<open>Math.random()\<close> and \<open>k\<close> the number of values drawn so far; the result is
  the new list with the new count. A position without \<^verbatim>\<open>lastUpdate\<close> is returned
  as it is and draws nothing.
\<close>

fun tickPositions ::
  "(string \<Rightarrow> real) \<Rightarrow> (nat \<Rightarrow> real) \<Rightarrow> nat \<Rightarrow> nat \<Rightarrow> Position list \<Rightarrow> Position list \<times> nat" where
  "tickPositions parse rnd now k [] = ([], k)"
| "tickPositions parse rnd now k (position # rest) =
     (if no_lastUpdate position then
        (let (rest', k') = tickPositions parse rnd now k rest in (position # rest', k'))
      else
        (let (rest', k') = tickPositions parse rnd now (k + 2) rest
         in (tickPosition parse (rnd k) (rnd (k + 1)) now position # rest', k')))"

text \<open>
  The function the ticker gives to \<^verbatim>\<open>setAccounts\<close> (lines 443-501):
  \<^verbatim>\<open>prevAccounts.map(...)\<close>, which leaves alone every account but the selected one,
  and the selected one too when it has no positions.
\<close>

fun tickAccounts ::
  "(string \<Rightarrow> real) \<Rightarrow> (nat \<Rightarrow> real) \<Rightarrow> nat \<Rightarrow> string option \<Rightarrow> nat \<Rightarrow> AccountData list
     \<Rightarrow> AccountData list \<times> nat" where
  "tickAccounts parse rnd now selectedAccount k [] = ([], k)"
| "tickAccounts parse rnd now selectedAccount k (account # rest) =
     (if Some (accountId account) \<noteq> selectedAccount then
        (let (rest', k') = tickAccounts parse rnd now selectedAccount k rest
         in (account # rest', k'))
      else
        (case positions account of
           None \<Rightarrow>
             (let (rest', k') = tickAccounts parse rnd now selectedAccount k rest
              in (account # rest', k'))
         | Some ps \<Rightarrow>
             if ps = [] then
               (let (rest', k') = tickAccounts parse rnd now selectedAccount k rest
                in (account # rest', k'))
             else
               (let (updatedPositions, k1) = tickPositions parse rnd now k ps;
                    (rest', k') = tickAccounts parse rnd now selectedAccount k1 rest
                in (account\<lparr>positions := Some updatedPositions\<rparr> # rest', k'))))"

definition interpolationTick ::
  "(string \<Rightarrow> real) \<Rightarrow> (nat \<Rightarrow> real) \<Rightarrow> nat \<Rightarrow> string option \<Rightarrow> AccountData list \<Rightarrow> AccountData list" where
  "interpolationTick parse rnd now selectedAccount prevAccounts =
     fst (tickAccounts parse rnd now selectedAccount 0 prevAccounts)"

text \<open>
  The number of positions before index \<open>j\<close> that have a \<^verbatim>\<open>lastUpdate\<close>: each of them
  has drawn two random values before the position at \<open>j\<close> draws its own.
\<close>

definition touched_before :: "Position list \<Rightarrow> nat \<Rightarrow> nat" where
  "touched_before ps j = length (filter (\<lambda>p. \<not> no_lastUpdate p) (take j ps))"

section \<open>The aggregator (lines 299-301 and 511-551)\<close>

text \<open>\<^verbatim>\<open>accounts.find((acc) => acc.accountId === selectedAccount)\<close>\<close>

definition selectedAccountData :: "AccountData list \<Rightarrow> string option \<Rightarrow> AccountData option" where
  "selectedAccountData accs selectedAccount =
     find (\<lambda>acc. Some (accountId acc) = selectedAccount) accs"

text \<open>
  \<^verbatim>\<open>pnlBySymbol\<close> is an object used as a dictionary; it is modelled as an association
  list in the order of insertion. \<^verbatim>\<open>pnlChange\<close> is reset by a timer two seconds after
  each recomputation that found a nonzero previous value; \<open>pendingResets\<close> counts the
  timers started.
\<close>

record pnl_state =
  netPnL :: real
  pnlBySymbol :: "(string \<times> real) list"
  prevNetPnLRef :: real
  pnlChange :: direction
  pendingResets :: nat

text \<open>\<^verbatim>\<open>positions.reduce((sum, position) => sum + Number(position.profit), 0)\<close>\<close>

definition totalPnL :: "(string \<Rightarrow> real) \<Rightarrow> Position list \<Rightarrow> real" where
  "totalPnL parse ps = foldl (\<lambda>sum position. sum + Number parse (profit position)) 0 ps"

text \<open>
  The body of the \<^verbatim>\<open>forEach\<close> of lines 534-543: the entry of the symbol is set to 0
  when it is absent or zero, then the profit is added to it. The association list stands
  for the object \<^verbatim>\<open>symbolPnL\<close> on symbols that are neither integer-like (an object
  lists such keys first) nor names that every object inherits (such as
  \<^verbatim>\<open>constructor\<close>, which the test \<^verbatim>\<open>!symbolPnL[symbol]\<close> finds).
\<close>

definition addSymbolPnL :: "(string \<Rightarrow> real) \<Rightarrow> Position \<Rightarrow> (string \<times> real) list \<Rightarrow> (string \<times> real) list" where
  "addSymbolPnL parse position symbolPnL =
     (let sym = symbol position;
          p = Number parse (profit position);
          m1 = (if (case map_of symbolPnL sym of None \<Rightarrow> True | Some v \<Rightarrow> v = 0)
                then AList.update sym 0 symbolPnL else symbolPnL)
      in AList.update sym ((case map_of m1 sym of Some v \<Rightarrow> v | None \<Rightarrow> 0) + p) m1)"

text \<open>
  The effect of lines 511-551, run with the positions of the selected account
  (\<^verbatim>\<open>selectedAccountData?.positions\<close>; an array, also an empty one, is truthy).
\<close>

definition recomputePnL :: "(string \<Rightarrow> real) \<Rightarrow> AccountData option \<Rightarrow> pnl_state \<Rightarrow> pnl_state" where
  "recomputePnL parse sel st =
     (case (case sel of None \<Rightarrow> None | Some a \<Rightarrow> positions a) of
        Some ps \<Rightarrow>
          (let total = totalPnL parse ps;
               st1 = (if prevNetPnLRef st \<noteq> 0
                      then st\<lparr>pnlChange :=
                                (if total > prevNetPnLRef st then Up
                                 else if total < prevNetPnLRef st then Down
                                 else pnlChange st),
                              pendingResets := pendingResets st + 1\<rparr>
                      else st)
           in st1\<lparr>prevNetPnLRef := total,
                   netPnL := total,
                   pnlBySymbol := fold (addSymbolPnL parse) ps []\<rparr>)
      | None \<Rightarrow> st\<lparr>netPnL := 0, pnlBySymbol := [], prevNetPnLRef := 0\<rparr>)"

text \<open>
  The state at mount: \<^verbatim>\<open>useState(0)\<close>, \<^verbatim>\<open>useState({})\<close>, \<^verbatim>\<open>useRef(0)\<close>,
  \<^verbatim>\<open>useState(null)\<close>.
\<close>

definition initial_pnl :: pnl_state where
  "initial_pnl = \<lparr>netPnL = 0, pnlBySymbol = [], prevNetPnLRef = 0, pnlChange = Null,
                  pendingResets = 0\<rparr>"

section \<open>The PnL history (lines 409-435)\<close>

text \<open>\<^verbatim>\<open>xs.slice(-n)\<close>: the last \<open>n\<close> elements, all of them when there are fewer.\<close>

definition slice_last :: "nat \<Rightarrow> 'a list \<Rightarrow> 'a list" where
  "slice_last n xs = drop (length xs - n) xs"

record hist_state =
  pnlHistory :: "PnLHistoryItem list"
  pnlHistoryBySymbol :: "string \<rightharpoonup> PnLHistoryItem list"

text \<open>\<^verbatim>\<open>prev[symbol] || []\<close>: the history of a symbol, empty when it has none.\<close>

definition history_of :: "hist_state \<Rightarrow> string \<Rightarrow> PnLHistoryItem list" where
  "history_of st smb = (case pnlHistoryBySymbol st smb of None \<Rightarrow> [] | Some h \<Rightarrow> h)"

text \<open>The function given to \<^verbatim>\<open>setPnlHistoryBySymbol\<close> for one entry of \<^verbatim>\<open>pnlBySymbol\<close>.\<close>

definition recordSymbol ::
  "nat \<Rightarrow> string \<times> real \<Rightarrow> (string \<rightharpoonup> PnLHistoryItem list) \<Rightarrow> (string \<rightharpoonup> PnLHistoryItem list)" where
  "recordSymbol now entry prev =
     (let symbolHistory = (case prev (fst entry) of None \<Rightarrow> [] | Some h \<Rightarrow> h)
      in prev(fst entry \<mapsto>
           slice_last 60 (symbolHistory @ [\<lparr>timestamp = now, val = snd entry\<rparr>])))"

text \<open>
  One firing of the 5-second interval, with the values of \<^verbatim>\<open>netPnL\<close> and
  \<^verbatim>\<open>pnlBySymbol\<close> the effect has captured.
\<close>

definition recordPnL :: "nat \<Rightarrow> real \<Rightarrow> (string \<times> real) list \<Rightarrow> hist_state \<Rightarrow> hist_state" where
  "recordPnL now net bySymbol st =
     (if net \<noteq> 0 then
        \<lparr>pnlHistory = slice_last 60 (pnlHistory st @ [\<lparr>timestamp = now, val = net\<rparr>]),
         pnlHistoryBySymbol = fold (recordSymbol now) bySymbol (pnlHistoryBySymbol st)\<rparr>
      else st)"

text \<open>A run of firings, each with its time and the values captured then.\<close>

fun recordAll :: "(nat \<times> real \<times> (string \<times> real) list) list \<Rightarrow> hist_state \<Rightarrow> hist_state" where
  "recordAll [] st = st"
| "recordAll ((now, net, bySymbol) # rest) st = recordAll rest (recordPnL now net bySymbol st)"

text \<open>The state at mount: \<^verbatim>\<open>useState([])\<close> and \<^verbatim>\<open>useState({})\<close>.\<close>

definition initial_hist :: hist_state where
  "initial_hist = \<lparr>pnlHistory = [], pnlHistoryBySymbol = Map.empty\<rparr>"

section \<open>The sparkline (lines 63-94)\<close>

text \<open>
  A JavaScript number: NaN, an infinity, or a finite double, given by its value. The two
  zeros of the doubles are not told apart.
\<close>

datatype jsnum = NaN | PInf | NInf | Fin real

text \<open>\<^verbatim>\<open>x <= y\<close>: false when one side is NaN.\<close>

fun js_le :: "jsnum \<Rightarrow> jsnum \<Rightarrow> bool" where
  "js_le NaN y = False"
| "js_le x NaN = False"
| "js_le NInf y = True"
| "js_le x PInf = True"
| "js_le (Fin a) (Fin b) = (a \<le> b)"
| "js_le x y = False"

text \<open>
  The arithmetic of the doubles. The parameter \<open>fl\<close> is the rounding of the runtime: it
  takes the exact result of an operation on finite numbers to the double that stands
  for it, an infinity when the result is out of range. NaN is contagious, and the
  operations on the infinities are those of IEEE 754.
\<close>

fun js_sub :: "(real \<Rightarrow> jsnum) \<Rightarrow> jsnum \<Rightarrow> jsnum \<Rightarrow> jsnum" where
  "js_sub fl NaN y = NaN"
| "js_sub fl x NaN = NaN"
| "js_sub fl (Fin a) (Fin b) = fl (a - b)"
| "js_sub fl (Fin a) PInf = NInf"
| "js_sub fl (Fin a) NInf = PInf"
| "js_sub fl PInf PInf = NaN"
| "js_sub fl PInf y = PInf"
| "js_sub fl NInf NInf = NaN"
| "js_sub fl NInf y = NInf"

fun js_mul :: "(real \<Rightarrow> jsnum) \<Rightarrow> jsnum \<Rightarrow> jsnum \<Rightarrow> jsnum" where
  "js_mul fl NaN y = NaN"
| "js_mul fl x NaN = NaN"
| "js_mul fl (Fin a) (Fin b) = fl (a * b)"
| "js_mul fl (Fin a) y = (if a = 0 then NaN else if (0 < a) = (y = PInf) then PInf else NInf)"
| "js_mul fl x (Fin b) = (if b = 0 then NaN else if (0 < b) = (x = PInf) then PInf else NInf)"
| "js_mul fl x y = (if x = y then PInf else NInf)"

fun js_div :: "(real \<Rightarrow> jsnum) \<Rightarrow> jsnum \<Rightarrow> jsnum \<Rightarrow> jsnum" where
  "js_div fl NaN y = NaN"
| "js_div fl x NaN = NaN"
| "js_div fl (Fin a) (Fin b) =
     (if b = 0 then (if a = 0 then NaN else if 0 < a then PInf else NInf) else fl (a / b))"
| "js_div fl (Fin a) y = Fin 0"
| "js_div fl x (Fin b) = (if (0 \<le> b) = (x = PInf) then PInf else NInf)"
| "js_div fl x y = NaN"

text \<open>
  \<^verbatim>\<open>Math.max(...data)\<close> and \<^verbatim>\<open>Math.min(...data)\<close>: NaN when a value is NaN,
  \<^verbatim>\<open>-Infinity\<close> and \<^verbatim>\<open>Infinity\<close> on no value.
\<close>

fun max2 :: "jsnum \<Rightarrow> jsnum \<Rightarrow> jsnum" where
  "max2 NaN y = NaN"
| "max2 x NaN = NaN"
| "max2 PInf y = PInf"
| "max2 x PInf = PInf"
| "max2 NInf y = y"
| "max2 x NInf = x"
| "max2 (Fin a) (Fin b) = Fin (max a b)"

fun min2 :: "jsnum \<Rightarrow> jsnum \<Rightarrow> jsnum" where
  "min2 NaN y = NaN"
| "min2 x NaN = NaN"
| "min2 NInf y = NInf"
| "min2 x NInf = NInf"
| "min2 PInf y = y"
| "min2 x PInf = x"
| "min2 (Fin a) (Fin b) = Fin (min a b)"

definition Math_max :: "jsnum list \<Rightarrow> jsnum" where
  "Math_max xs = foldl max2 NInf xs"

definition Math_min :: "jsnum list \<Rightarrow> jsnum" where
  "Math_min xs = foldl min2 PInf xs"

text \<open>\<^verbatim>\<open>const range = max - min || 1\<close>: zero and NaN are falsy.\<close>

definition spark_range :: "(real \<Rightarrow> jsnum) \<Rightarrow> jsnum list \<Rightarrow> jsnum" where
  "spark_range fl xs =
     (let r = js_sub fl (Math_max xs) (Math_min xs)
      in if r = Fin 0 \<or> r = NaN then Fin 1 else r)"

text \<open>
  The points of the polyline, before they are printed as \<^verbatim>\<open>x,y\<close> and joined; \<open>None\<close>
  is the \<^verbatim>\<open>return null\<close> of line 64. The index and the length are integers, which
  are doubles.
\<close>

definition SparkLine :: "(real \<Rightarrow> jsnum) \<Rightarrow> jsnum list \<Rightarrow> (jsnum \<times> jsnum) list option" where
  "SparkLine fl xs =
     (if length xs < 2 then None
      else Some (map (\<lambda>(index, v).
                        (js_mul fl (js_div fl (Fin (real index)) (Fin (real (length xs - 1))))
                           (Fin 100),
                         js_sub fl (Fin 100)
                           (js_mul fl (js_div fl (js_sub fl v (Math_min xs)) (spark_range fl xs))
                              (Fin 100))))
                     (enumerate 0 xs)))"

section \<open>Refreshing the details of an account (lines 684-731, 647-650, 334-406)\<close>

text \<open>
  \<open>isRefreshing\<close> is the React state of that name; \<open>detailFetches\<close> lists the
  requests \<^verbatim>\<open>GET /accounts/{id}\<close> that were sent and are not answered yet.
\<close>

record refresh_state =
  isRefreshing :: bool
  detailFetches :: "string option list"

text \<open>The state at mount: \<^verbatim>\<open>useState(false)\<close>, and nothing sent.\<close>

definition initial_refresh :: refresh_state where
  "initial_refresh = \<lparr>isRefreshing = False, detailFetches = []\<rparr>"

text \<open>
  \<^verbatim>\<open>refreshAccountDetails\<close> up to its \<^verbatim>\<open>await fetch(...)\<close>. The callback is made by
  \<^verbatim>\<open>useCallback(..., [isRefreshing])\<close>: the \<^verbatim>\<open>isRefreshing\<close> its guard reads is the
  value of the render that made the callback, here the parameter \<open>captured\<close>.
\<close>

definition refreshAccountDetails :: "bool \<Rightarrow> string option \<Rightarrow> refresh_state \<Rightarrow> refresh_state" where
  "refreshAccountDetails captured acc s =
     (if captured then s
      else s\<lparr>isRefreshing := True, detailFetches := detailFetches s @ [acc]\<rparr>)"

text \<open>
  The callers of the current render (the auto-refresh interval, which its effect installs
  again whenever the callback changes, \<^verbatim>\<open>viewAccountDetails\<close> and the refresh button) hold
  the callback of the last render, whose captured value is the state's.
\<close>

definition refreshFromRender :: "string option \<Rightarrow> refresh_state \<Rightarrow> refresh_state" where
  "refreshFromRender acc s = refreshAccountDetails (isRefreshing s) acc s"

text \<open>
  The WebSocket handler is installed once, by an effect with the dependency list \<^verbatim>\<open>[]\<close>
  (lines 334-406): its \<^verbatim>\<open>updatePositions\<close> and \<^verbatim>\<open>updateOrders\<close>, and the
  \<^verbatim>\<open>refreshAccountDetails\<close> they call, are those of the first render, where
  \<^verbatim>\<open>useState(false)\<close> gives \<^verbatim>\<open>isRefreshing = false\<close>. The messages
  \<^verbatim>\<open>positionsUpdated\<close> and \<^verbatim>\<open>orderCompleted\<close> call
  \<^verbatim>\<open>refreshAccountDetails(data.accountId)\<close>; the other messages do not.
\<close>

definition onmessage_refresh :: "ws_data \<Rightarrow> refresh_state \<Rightarrow> refresh_state" where
  "onmessage_refresh d s =
     (if ev_event d = ''positionsUpdated'' \<or> ev_event d = ''orderCompleted''
      then refreshAccountDetails False (ev_accountId d) s
      else s)"

section \<open>Notions used in the statements\<close>

text \<open>
  The samples of the net PnL that a run of firings appends, in order: one for each firing
  with a nonzero net PnL.
\<close>

definition net_samples :: "(nat \<times> real \<times> (string \<times> real) list) list \<Rightarrow> PnLHistoryItem list" where
  "net_samples steps =
     map (\<lambda>(now, net, bySymbol). \<lparr>timestamp = now, val = net\<rparr>)
       (filter (\<lambda>(now, net, bySymbol). net \<noteq> 0) steps)"

text \<open>
  The samples a run of firings appends for one symbol, in order: at each firing with a
  nonzero net PnL, the entry of the symbol in \<^verbatim>\<open>pnlBySymbol\<close>, if there is one.
\<close>

definition symbol_samples ::
  "string \<Rightarrow> (nat \<times> real \<times> (string \<times> real) list) list \<Rightarrow> PnLHistoryItem list" where
  "symbol_samples smb steps =
     concat (map (\<lambda>(now, net, bySymbol).
                    if net \<noteq> 0
                    then map (\<lambda>entry. \<lparr>timestamp = now, val = snd entry\<rparr>)
                           (filter (\<lambda>entry. fst entry = smb) bySymbol)
                    else [])
                 steps)"

text \<open>The accounts with the \<^verbatim>\<open>priceChange\<close> of every position left out.\<close>

definition erase_priceChange :: "AccountData list \<Rightarrow> AccountData list" where
  "erase_priceChange accs =
     map (\<lambda>a. a\<lparr>positions := map_option (map (\<lambda>p. p\<lparr>priceChange := None\<rparr>)) (positions a)\<rparr>) accs"

text \<open>
  What is assumed of the rounding of the runtime: it is monotone, which also says that it
  never gives NaN, and 0, 1 and 100 are doubles. Rounding to nearest, as IEEE 754 has it,
  is such a rounding.
\<close>

definition rounding :: "(real \<Rightarrow> jsnum) \<Rightarrow> bool" where
  "rounding fl \<longleftrightarrow>
     (\<forall>x y. x \<le> y \<longrightarrow> js_le (fl x) (fl y)) \<and> fl 0 = Fin 0 \<and> fl 1 = Fin 1 \<and> fl 100 = Fin 100"

text \<open>\<^verbatim>\<open>0 <= x && x <= 100\<close>\<close>

definition in_0_100 :: "jsnum \<Rightarrow> bool" where
  "in_0_100 x \<longleftrightarrow> js_le (Fin 0) x \<and> js_le x (Fin 100)"

section \<open>Concrete data\<close>

text \<open>
  The scenario of the specification: account A holds one buy position on EURUSD, volume 1,
  opened at 1.1000, now at 1.1010, with profit 1.00.
\<close>

definition no_patch :: PositionPatch where
  "no_patch = \<lparr>p_id = None, p_symbol = None, p_type = None, p_volume = None, p_openPrice = None,
     p_currentPrice = None, p_profit = None, p_lastUpdate = None, p_priceChange = None,
     p_tickDirection = None, p_lastTickTime = None, p_isRealData = None\<rparr>"

definition ex_position :: Position where
  "ex_position = \<lparr>pos_id = ''p1'', symbol = ''EURUSD'', pos_type = ''POSITION_TYPE_BUY'',
     volume = 1, openPrice = 1.1, currentPrice = 1.101, profit = Num 1,
     lastUpdate = Some 1000, priceChange = None, tickDirection = None, lastTickTime = None,
     isRealData = Some True\<rparr>"

definition ex_account :: AccountData where
  "ex_account = \<lparr>accountId = ''A'', connected = Some True, connectedToBroker = Some True,
     accountInfo = None, positions = Some [ex_position], orders = None\<rparr>"

text \<open>A message for position p1 of account A.\<close>

definition ex_message :: "string \<Rightarrow> PositionPatch option \<Rightarrow> ws_data" where
  "ex_message ev patch = \<lparr>ev_event = ev, ev_accountId = Some ''A'', ev_positionId = Some ''p1'',
     ev_position = patch, ev_accountInformation = None\<rparr>"

text \<open>The payload of the scenario: the price moves to 1.1020 and the profit to 2.\<close>

definition ex_patch :: PositionPatch where
  "ex_patch = no_patch\<lparr>p_currentPrice := Some 1.102, p_profit := Some (Num 2)\<rparr>"

text \<open>A position that never had an authoritative update, with its profit as a string.\<close>

definition ex_stale :: Position where
  "ex_stale = \<lparr>pos_id = ''p2'', symbol = ''GBPUSD'', pos_type = ''POSITION_TYPE_SELL'',
     volume = 2, openPrice = 1.3, currentPrice = 1.25, profit = Str ''10'',
     lastUpdate = None, priceChange = None, tickDirection = None, lastTickTime = None,
     isRealData = None\<rparr>"

definition ex_accounts :: "AccountData list" where
  "ex_accounts =
     [ex_account\<lparr>positions := Some [ex_position, ex_stale]\<rparr>,
      \<lparr>accountId = ''B'', connected = None, connectedToBroker = None, accountInfo = None,
       positions = Some [ex_position\<lparr>pos_id := ''p3''\<rparr>], orders = None\<rparr>]"

definition ex_parse :: "string \<Rightarrow> real" where
  "ex_parse s = (if s = ''10'' then 10 else 0)"

text \<open>A random source that always draws 0.75: every tick moves up by 0.04 percent.\<close>

definition ex_rnd :: "nat \<Rightarrow> real" where
  "ex_rnd k = 3 / 4"

text \<open>
  Three firings of the sampling interval, the second with a net PnL of zero.
\<close>

definition ex_steps :: "(nat \<times> real \<times> (string \<times> real) list) list" where
  "ex_steps = [(5000, 3, [(''EURUSD'', 1), (''GBPUSD'', 2)]), (10000, 0, [(''EURUSD'', 0)]),
               (15000, 4, [(''EURUSD'', 4)])]"

text \<open>A net-PnL history that is full: 60 samples, the oldest one different from the rest.\<close>

definition ex_full :: hist_state where
  "ex_full = \<lparr>pnlHistory = \<lparr>timestamp = 1, val = 9\<rparr> # replicate 59 \<lparr>timestamp = 2, val = 8\<rparr>,
              pnlHistoryBySymbol = Map.empty\<rparr>"

text \<open>
  A rounding for the examples: it overflows where the doubles do (from
  \<open>2^1024 - 2^970\<close> on) and is exact below. The finite values of the examples and all
  that is computed from them are doubles, so that the runtime computes the same.
\<close>

definition round_exact :: "real \<Rightarrow> jsnum" where
  "round_exact x =
     (if 2 ^ 1024 - 2 ^ 970 \<le> x then PInf
      else if x \<le> - (2 ^ 1024 - 2 ^ 970) then NInf
      else Fin x)"

section \<open>Authoritative position updates\<close>

text \<open>
  Claim C1, as the code has it. A \<^verbatim>\<open>positionUpdated\<close> message that carries a payload and
  names position \<open>j\<close> of account \<open>i\<close> gives a position where: \<^verbatim>\<open>priceChange\<close> is
  \<open>Up\<close> when the payload's current price is nonzero and strictly greater than the
  previous one, \<open>Down\<close> when it is nonzero and strictly less, and \<open>Null\<close> otherwise
  (also when the payload has no current price, or has the price zero, which
  \<^verbatim>\<open>||\<close> takes for a missing one); \<^verbatim>\<open>lastUpdate\<close> is the processing time;
  \<^verbatim>\<open>tickDirection\<close> is null; \<^verbatim>\<open>isRealData\<close> is true; and every other field is the
  payload's when the payload supplies it (the profit too, which is not recomputed) and
  the old one otherwise.
\<close>

theorem positionUpdated_position:
  assumes "ev_event d = ''positionUpdated''" and "ev_position d = Some patch"
    and "i < length accs" and "ev_accountId d = Some (accountId (accs ! i))"
    and "positions (accs ! i) = Some ps" and "j < length ps"
    and "ev_positionId d = Some (pos_id (ps ! j))"
  shows "\<exists>ps'. positions (updatePositions now d accs ! i) = Some ps' \<and> length ps' = length ps \<and>
     priceChange (ps' ! j) =
       Some (case p_currentPrice patch of
               None \<Rightarrow> Null
             | Some c \<Rightarrow> if c = 0 then Null
                         else if c > currentPrice (ps ! j) then Up
                         else if c < currentPrice (ps ! j) then Down else Null) \<and>
     lastUpdate (ps' ! j) = Some now \<and>
     tickDirection (ps' ! j) = Some Null \<and>
     isRealData (ps' ! j) = Some True \<and>
     pos_id (ps' ! j) = (case p_id patch of Some v \<Rightarrow> v | None \<Rightarrow> pos_id (ps ! j)) \<and>
     symbol (ps' ! j) = (case p_symbol patch of Some v \<Rightarrow> v | None \<Rightarrow> symbol (ps ! j)) \<and>
     pos_type (ps' ! j) = (case p_type patch of Some v \<Rightarrow> v | None \<Rightarrow> pos_type (ps ! j)) \<and>
     volume (ps' ! j) = (case p_volume patch of Some v \<Rightarrow> v | None \<Rightarrow> volume (ps ! j)) \<and>
     openPrice (ps' ! j) = (case p_openPrice patch of Some v \<Rightarrow> v | None \<Rightarrow> openPrice (ps ! j)) \<and>
     currentPrice (ps' ! j) =
       (case p_currentPrice patch of Some v \<Rightarrow> v | None \<Rightarrow> currentPrice (ps ! j)) \<and>
     profit (ps' ! j) = (case p_profit patch of Some v \<Rightarrow> v | None \<Rightarrow> profit (ps ! j)) \<and>
     lastTickTime (ps' ! j) =
       (case p_lastTickTime patch of Some v \<Rightarrow> Some v | None \<Rightarrow> lastTickTime (ps ! j))"
  using assms
  by (simp add: updatePositions_def positions_or_empty_def applyPositionUpdate_def
      spread_position_def newPrice_def Let_def split: option.splits)

text \<open>
  The scenario of the specification for C1: the price goes from 1.1010 to 1.1020, the
  payload's profit is 2; the position then has \<^verbatim>\<open>priceChange = "up"\<close>, the payload's
  profit, and \<^verbatim>\<open>isRealData = true\<close>.
\<close>

theorem positionUpdated_position_witness:
  "\<exists>ps'. positions (updatePositions 2000 (ex_message ''positionUpdated'' (Some ex_patch))
       [ex_account] ! 0) = Some ps' \<and>
     priceChange (ps' ! 0) = Some Up \<and> profit (ps' ! 0) = Num 2 \<and> isRealData (ps' ! 0) = Some True
     \<and> lastUpdate (ps' ! 0) = Some 2000 \<and> tickDirection (ps' ! 0) = Some Null"
proof -
  have "ev_event (ex_message ''positionUpdated'' (Some ex_patch)) = ''positionUpdated''"
    and "ev_position (ex_message ''positionUpdated'' (Some ex_patch)) = Some ex_patch"
    and "0 < length [ex_account]"
    and "ev_accountId (ex_message ''positionUpdated'' (Some ex_patch)) = Some (accountId ([ex_account] ! 0))"
    and "positions ([ex_account] ! 0) = Some [ex_position]"
    and "0 < length [ex_position]"
    and "ev_positionId (ex_message ''positionUpdated'' (Some ex_patch)) = Some (pos_id ([ex_position] ! 0))"
    by (simp_all add: ex_message_def ex_account_def ex_position_def)
  from positionUpdated_position [OF this, of 2000]
  show ?thesis
    by (auto simp: ex_patch_def no_patch_def ex_position_def)
qed

text \<open>
  Claim C1 as it is stated fails for a payload whose current price is 0: the new price
  0 is strictly less than the previous price 1.101, and \<^verbatim>\<open>priceChange\<close> is null, not
  \<^verbatim>\<open>"down"\<close>.
\<close>

theorem positionUpdated_zero_price:
  "p_currentPrice (no_patch\<lparr>p_currentPrice := Some 0\<rparr>) = Some 0 \<and>
   (0::real) < currentPrice ex_position \<and>
   map (map_option (map priceChange) \<circ> positions)
     (updatePositions 2000 (ex_message ''positionUpdated'' (Some (no_patch\<lparr>p_currentPrice := Some 0\<rparr>)))
        [ex_account]) = [Some [Some Null]]"
  by (simp add: updatePositions_def positions_or_empty_def applyPositionUpdate_def
      spread_position_def newPrice_def no_patch_def ex_position_def ex_account_def ex_message_def)

section \<open>The interpolation ticker\<close>

lemma tickPosition_fields:
  "lastUpdate (tickPosition parse r1 r2 now p) = lastUpdate p"
  "isRealData (tickPosition parse r1 r2 now p) = Some False"
  "pos_id (tickPosition parse r1 r2 now p) = pos_id p"
  by (simp_all add: tickPosition_def Let_def)

lemma length_tickPositions:
  "length (fst (tickPositions parse rnd now k ps)) = length ps"
  by (induction ps arbitrary: k) (simp_all add: split_beta Let_def)

lemma tickPositions_nth_skip:
  "j < length ps \<Longrightarrow> no_lastUpdate (ps ! j) \<Longrightarrow>
   fst (tickPositions parse rnd now k ps) ! j = ps ! j"
proof (induction ps arbitrary: k j)
  case Nil
  then show ?case by simp
next
  case (Cons p ps)
  then show ?case
    by (cases j) (simp_all add: split_beta Let_def)
qed

lemma tickPositions_nth_touch:
  "j < length ps \<Longrightarrow> \<not> no_lastUpdate (ps ! j) \<Longrightarrow>
   fst (tickPositions parse rnd now k ps) ! j =
     tickPosition parse (rnd (k + 2 * touched_before ps j))
       (rnd (k + 2 * touched_before ps j + 1)) now (ps ! j)"
proof (induction ps arbitrary: k j)
  case Nil
  then show ?case by simp
next
  case (Cons p ps)
  show ?case
  proof (cases j)
    case 0
    with Cons.prems show ?thesis
      by (simp add: split_beta Let_def touched_before_def)
  next
    case (Suc j')
    with Cons.prems have j': "j' < length ps" "\<not> no_lastUpdate (ps ! j')"
      by simp_all
    show ?thesis
      using Cons.IH [OF j', of k] Cons.IH [OF j', of "k + 2"] Suc
      by (simp add: split_beta Let_def touched_before_def add.assoc)
  qed
qed

lemma tickAccounts_rel:
  "list_all2 (\<lambda>a a'. if Some (accountId a) = sel \<and> positions a \<noteq> None
               then \<exists>k'. a' = a\<lparr>positions := Some (fst (tickPositions parse rnd now k' (the (positions a))))\<rparr>
               else a' = a)
     accs (fst (tickAccounts parse rnd now sel k accs))"
proof (induction accs arbitrary: k)
  case Nil
  then show ?case by simp
next
  case (Cons a accs)
  show ?case
  proof (cases "Some (accountId a) = sel")
    case False
    then show ?thesis using Cons.IH [of k] by (simp add: split_beta)
  next
    case True
    show ?thesis
    proof (cases "positions a")
      case None
      then show ?thesis using True Cons.IH [of k] by (simp add: split_beta)
    next
      case (Some ps)
      show ?thesis
      proof (cases "ps = []")
        case True
        have "a = a\<lparr>positions := Some (fst (tickPositions parse rnd now 0 []))\<rparr>"
          using Some True by simp
        then have "\<exists>k'. a = a\<lparr>positions := Some (fst (tickPositions parse rnd now k' []))\<rparr>" ..
        then show ?thesis
          using \<open>Some (accountId a) = sel\<close> Some True Cons.IH [of k] by (simp add: split_beta)
      next
        case False
        then show ?thesis
          using \<open>Some (accountId a) = sel\<close> Some
            Cons.IH [of "snd (tickPositions parse rnd now k ps)"]
          by (auto simp add: split_beta Let_def)
      qed
    qed
  qed
qed

lemma tickPositions_frame:
  "list_all2 (\<lambda>p p'. lastUpdate p' = lastUpdate p \<and> (no_lastUpdate p \<longrightarrow> p' = p) \<and>
                (\<not> no_lastUpdate p \<longrightarrow> isRealData p' = Some False))
     ps (fst (tickPositions parse rnd now k ps))"
proof (rule list_all2_all_nthI)
  show "length ps = length (fst (tickPositions parse rnd now k ps))"
    by (simp add: length_tickPositions)
next
  fix n assume n: "n < length ps"
  show "lastUpdate (fst (tickPositions parse rnd now k ps) ! n) = lastUpdate (ps ! n) \<and>
        (no_lastUpdate (ps ! n) \<longrightarrow> fst (tickPositions parse rnd now k ps) ! n = ps ! n) \<and>
        (\<not> no_lastUpdate (ps ! n) \<longrightarrow>
           isRealData (fst (tickPositions parse rnd now k ps) ! n) = Some False)"
  proof (cases "no_lastUpdate (ps ! n)")
    case True
    then show ?thesis by (simp add: tickPositions_nth_skip [OF n])
  next
    case False
    then show ?thesis by (simp add: tickPositions_nth_touch [OF n] tickPosition_fields)
  qed
qed

lemma list_all2_same: "list_all2 R xs xs \<longleftrightarrow> (\<forall>x\<in>set xs. R x x)"
  by (induction xs) auto

lemma tickAccounts_frame:
  "list_all2 (\<lambda>a a'. accountId a' = accountId a \<and>
       rel_option (list_all2 (\<lambda>p p'. lastUpdate p' = lastUpdate p \<and>
                      (no_lastUpdate p \<longrightarrow> p' = p) \<and>
                      (p' \<noteq> p \<longrightarrow> isRealData p' = Some False) \<and>
                      (Some (accountId a) = sel \<and> \<not> no_lastUpdate p
                         \<longrightarrow> isRealData p' = Some False)))
         (positions a) (positions a'))
     accs (fst (tickAccounts parse rnd now sel k accs))"
proof (rule list_all2_mono [OF tickAccounts_rel])
  fix a a'
  let ?R = "\<lambda>p p'. lastUpdate p' = lastUpdate p \<and> (no_lastUpdate p \<longrightarrow> p' = p) \<and>
              (p' \<noteq> p \<longrightarrow> isRealData p' = Some False) \<and>
              (Some (accountId a) = sel \<and> \<not> no_lastUpdate p \<longrightarrow> isRealData p' = Some False)"
  assume h: "if Some (accountId a) = sel \<and> positions a \<noteq> None
        then \<exists>k'. a' = a\<lparr>positions := Some (fst (tickPositions parse rnd now k' (the (positions a))))\<rparr>
        else a' = a"
  show "accountId a' = accountId a \<and> rel_option (list_all2 ?R) (positions a) (positions a')"
  proof (cases "Some (accountId a) = sel \<and> positions a \<noteq> None")
    case True
    then obtain ps where ps: "positions a = Some ps" by auto
    from h True ps obtain k' where
      a': "a' = a\<lparr>positions := Some (fst (tickPositions parse rnd now k' ps))\<rparr>" by auto
    have "list_all2 ?R ps (fst (tickPositions parse rnd now k' ps))"
      by (rule list_all2_mono [OF tickPositions_frame]) auto
    with a' ps show ?thesis by simp
  next
    case False
    with h have "a' = a" by simp
    moreover have "rel_option (list_all2 ?R) (positions a) (positions a)"
    proof (cases "positions a")
      case None
      then show ?thesis by simp
    next
      case (Some ps)
      with False have "Some (accountId a) \<noteq> sel" by simp
      then have "list_all2 ?R ps ps" by (simp add: list_all2_same)
      with Some show ?thesis by simp
    qed
    ultimately show ?thesis by simp
  qed
qed

lemma list_all2_preserves:
  "list_all2 R xs ys \<Longrightarrow> (\<And>x y. R x y \<Longrightarrow> P x \<Longrightarrow> P y) \<Longrightarrow> \<forall>x\<in>set xs. P x \<Longrightarrow> \<forall>y\<in>set ys. P y"
  by (induction rule: list_all2_induct) auto

text \<open>
  Claim C2. One tick of the ticker keeps the accounts and their positions in place, and
  for every position: \<^verbatim>\<open>lastUpdate\<close> is not changed; a position without
  \<^verbatim>\<open>lastUpdate\<close> is left as it is; a position that is changed has \<^verbatim>\<open>isRealData\<close>
  false afterwards, and so has every position of the selected account that has a
  \<^verbatim>\<open>lastUpdate\<close>. Hence, if before the tick every position with \<^verbatim>\<open>isRealData\<close> true
  has a \<^verbatim>\<open>lastUpdate\<close>, the same holds after it.
\<close>

theorem interpolationTick_frame:
  "list_all2 (\<lambda>a a'. accountId a' = accountId a \<and>
       rel_option (list_all2 (\<lambda>p p'. lastUpdate p' = lastUpdate p \<and>
                      (no_lastUpdate p \<longrightarrow> p' = p) \<and>
                      (p' \<noteq> p \<longrightarrow> isRealData p' = Some False) \<and>
                      (Some (accountId a) = sel \<and> \<not> no_lastUpdate p
                         \<longrightarrow> isRealData p' = Some False)))
         (positions a) (positions a'))
     accs (interpolationTick parse rnd now sel accs) \<and>
   ((\<forall>a\<in>set accs. \<forall>p\<in>set (positions_or_empty a). isRealData p = Some True \<longrightarrow> \<not> no_lastUpdate p)
    \<longrightarrow> (\<forall>a\<in>set (interpolationTick parse rnd now sel accs). \<forall>p\<in>set (positions_or_empty a).
           isRealData p = Some True \<longrightarrow> \<not> no_lastUpdate p))"
proof (intro conjI impI)
  show frame: "list_all2 (\<lambda>a a'. accountId a' = accountId a \<and>
       rel_option (list_all2 (\<lambda>p p'. lastUpdate p' = lastUpdate p \<and>
                      (no_lastUpdate p \<longrightarrow> p' = p) \<and>
                      (p' \<noteq> p \<longrightarrow> isRealData p' = Some False) \<and>
                      (Some (accountId a) = sel \<and> \<not> no_lastUpdate p
                         \<longrightarrow> isRealData p' = Some False)))
         (positions a) (positions a'))
     accs (interpolationTick parse rnd now sel accs)"
    unfolding interpolationTick_def by (rule tickAccounts_frame)
  let ?I = "\<lambda>p. isRealData p = Some True \<longrightarrow> \<not> no_lastUpdate p"
  assume inv: "\<forall>a\<in>set accs. \<forall>p\<in>set (positions_or_empty a). ?I p"
  show "\<forall>a\<in>set (interpolationTick parse rnd now sel accs). \<forall>p\<in>set (positions_or_empty a). ?I p"
  proof (rule list_all2_preserves [OF frame _ inv])
    fix a a' :: AccountData
    assume r: "accountId a' = accountId a \<and>
       rel_option (list_all2 (\<lambda>p p'. lastUpdate p' = lastUpdate p \<and>
                      (no_lastUpdate p \<longrightarrow> p' = p) \<and>
                      (p' \<noteq> p \<longrightarrow> isRealData p' = Some False) \<and>
                      (Some (accountId a) = sel \<and> \<not> no_lastUpdate p
                         \<longrightarrow> isRealData p' = Some False)))
         (positions a) (positions a')"
      and a: "\<forall>p\<in>set (positions_or_empty a). ?I p"
    show "\<forall>p\<in>set (positions_or_empty a'). ?I p"
    proof (cases "positions a")
      case None
      with r have "positions a' = None" by (cases "positions a'") simp_all
      then show ?thesis by (simp add: positions_or_empty_def)
    next
      case (Some ps)
      with r obtain ps' where ps': "positions a' = Some ps'"
        by (cases "positions a'") simp_all
      from r Some ps' have l: "list_all2 (\<lambda>p p'. lastUpdate p' = lastUpdate p \<and>
                      (no_lastUpdate p \<longrightarrow> p' = p) \<and>
                      (p' \<noteq> p \<longrightarrow> isRealData p' = Some False) \<and>
                      (Some (accountId a) = sel \<and> \<not> no_lastUpdate p
                         \<longrightarrow> isRealData p' = Some False)) ps ps'" by simp
      from a Some have "\<forall>p\<in>set ps. ?I p" by (simp add: positions_or_empty_def)
      then have "\<forall>p\<in>set ps'. ?I p"
        by (rule list_all2_preserves [where P = ?I, OF l, rotated]) auto
      with ps' show ?thesis by (simp add: positions_or_empty_def)
    qed
  qed
qed

text \<open>
  C2 on two accounts, A selected: A's position with a \<^verbatim>\<open>lastUpdate\<close> becomes
  interpolated, its position without one and the position of B are as before.
\<close>

theorem interpolationTick_frame_witness:
  "list_all (\<lambda>a. list_all (\<lambda>p. isRealData p = Some True \<longrightarrow> \<not> no_lastUpdate p) (positions_or_empty a))
     (interpolationTick ex_parse ex_rnd 5000 (Some ''A'') ex_accounts) \<and>
   map (map_option (map (\<lambda>p. (lastUpdate p, isRealData p))) \<circ> positions)
     (interpolationTick ex_parse ex_rnd 5000 (Some ''A'') ex_accounts) =
     [Some [(Some 1000, Some False), (None, None)], Some [(Some 1000, Some True)]]"
proof -
  have inv: "\<forall>a\<in>set ex_accounts. \<forall>p\<in>set (positions_or_empty a).
      isRealData p = Some True \<longrightarrow> \<not> no_lastUpdate p"
    by (simp add: ex_accounts_def ex_account_def ex_position_def ex_stale_def
        positions_or_empty_def no_lastUpdate_def)
  have "\<forall>a\<in>set (interpolationTick ex_parse ex_rnd 5000 (Some ''A'') ex_accounts).
      \<forall>p\<in>set (positions_or_empty a). isRealData p = Some True \<longrightarrow> \<not> no_lastUpdate p"
    by (rule interpolationTick_frame [THEN conjunct2, THEN mp, OF inv])
  moreover have "map (map_option (map (\<lambda>p. (lastUpdate p, isRealData p))) \<circ> positions)
     (interpolationTick ex_parse ex_rnd 5000 (Some ''A'') ex_accounts) =
     [Some [(Some 1000, Some False), (None, None)], Some [(Some 1000, Some True)]]"
    by (simp add: interpolationTick_def ex_accounts_def ex_account_def ex_position_def
        ex_stale_def no_lastUpdate_def tickPosition_def Let_def)
  ultimately show ?thesis by (simp add: list_all_iff)
qed

text \<open>
  Claim C3, as the code has it. For the position at index \<open>j\<close> of the list the ticker
  maps over, with a \<^verbatim>\<open>lastUpdate\<close>, and \<open>d\<close> the perturbation of its price
  (\<^verbatim>\<open>currentPrice * changePercent\<close>, from the two random values this position draws):
  a position of type \<^verbatim>\<open>POSITION_TYPE_BUY\<close> gets the profit \<open>Number(profit) + d * volume\<close>,
  any other (a sell) gets \<open>Number(profit) - d * volume\<close>; \<^verbatim>\<open>tickDirection\<close> is up
  for \<open>d > 0\<close>, down for \<open>d < 0\<close>, null for \<open>d = 0\<close>. Nothing is said of a strict
  increase or decrease of the profit.
\<close>

theorem tick_profit:
  assumes "j < length ps" and "\<not> no_lastUpdate (ps ! j)"
  shows "let p = ps ! j;
             p' = fst (tickPositions parse rnd now k ps) ! j;
             d = tickDelta (rnd (k + 2 * touched_before ps j))
                   (rnd (k + 2 * touched_before ps j + 1)) p
         in (pos_type p = ''POSITION_TYPE_BUY'' \<longrightarrow>
               profit p' = Num (Number parse (profit p) + d * volume p)) \<and>
            (pos_type p \<noteq> ''POSITION_TYPE_BUY'' \<longrightarrow>
               profit p' = Num (Number parse (profit p) - d * volume p)) \<and>
            tickDirection p' = Some (if d > 0 then Up else if d < 0 then Down else Null)"
  using assms
  by (simp add: tickPositions_nth_touch tickPosition_def Let_def)

text \<open>
  C3 on the list of the stale position and the position of the scenario: the second one
  draws the first two random values, its price moves up by 0.0004404 and so does the profit
  (volume 1).
\<close>

theorem tick_profit_witness:
  "fst (tickPositions ex_parse ex_rnd 5000 0 [ex_stale, ex_position]) ! 1 =
     ex_position\<lparr>currentPrice := 1.101 + 0.0004404, profit := Num (1 + 0.0004404),
       tickDirection := Some Up, lastTickTime := Some 5000, isRealData := Some False\<rparr> \<and>
   tickDelta (ex_rnd 0) (ex_rnd 1) ex_position = 0.0004404"
proof -
  have "1 < length [ex_stale, ex_position]" and "\<not> no_lastUpdate ([ex_stale, ex_position] ! 1)"
    by (simp_all add: ex_position_def no_lastUpdate_def)
  from tick_profit [OF this, of ex_parse ex_rnd 5000 0]
  show ?thesis
    by (simp add: ex_position_def ex_stale_def no_lastUpdate_def tickPosition_def Let_def
        tickDelta_def changePercent_def ex_rnd_def touched_before_def)
qed

text \<open>
  Claim C3 as it is stated fails for a volume of 0: a buy position, a perturbation
  \<open>d > 0\<close>, and the profit is the same after the tick, not strictly greater.
\<close>

theorem tick_profit_zero_volume:
  "pos_type (ex_position\<lparr>volume := 0\<rparr>) = ''POSITION_TYPE_BUY'' \<and>
   \<not> no_lastUpdate (ex_position\<lparr>volume := 0\<rparr>) \<and>
   0 < tickDelta (ex_rnd 0) (ex_rnd 1) (ex_position\<lparr>volume := 0\<rparr>) \<and>
   Number ex_parse (profit (fst (tickPositions ex_parse ex_rnd 5000 0 [ex_position\<lparr>volume := 0\<rparr>]) ! 0))
     = Number ex_parse (profit (ex_position\<lparr>volume := 0\<rparr>))"
  by (simp add: ex_position_def no_lastUpdate_def tickPosition_def Let_def
      tickDelta_def changePercent_def ex_rnd_def)

section \<open>The aggregator\<close>

lemma foldl_add_sum_list:
  "foldl (\<lambda>sum x. sum + f x) a xs = (a::real) + sum_list (map f xs)"
  by (induction xs arbitrary: a) simp_all

text \<open>
  Claim C4. When the selected account has a position set, the net PnL after the
  recomputation is the sum of \<^verbatim>\<open>Number(profit)\<close> over its positions, and a second
  recomputation on the same account gives the same net PnL.
\<close>

theorem netPnL_sum:
  assumes "selectedAccountData accs sel = Some a" and "positions a = Some ps"
  shows "netPnL (recomputePnL parse (selectedAccountData accs sel) st) =
           sum_list (map (\<lambda>p. Number parse (profit p)) ps) \<and>
         netPnL (recomputePnL parse (selectedAccountData accs sel)
                   (recomputePnL parse (selectedAccountData accs sel) st)) =
           netPnL (recomputePnL parse (selectedAccountData accs sel) st)"
  using assms
  by (simp add: recomputePnL_def totalPnL_def foldl_add_sum_list Let_def)

text \<open>
  C4 on account A with the profits 1 and \<^verbatim>\<open>"10"\<close>: the net PnL is 11, and stays 11.
\<close>

theorem netPnL_sum_witness:
  "netPnL (recomputePnL ex_parse (selectedAccountData ex_accounts (Some ''A'')) initial_pnl) = 11 \<and>
   netPnL (recomputePnL ex_parse (selectedAccountData ex_accounts (Some ''A''))
     (recomputePnL ex_parse (selectedAccountData ex_accounts (Some ''A'')) initial_pnl)) = 11"
proof -
  have "selectedAccountData ex_accounts (Some ''A'') =
          Some (ex_account\<lparr>positions := Some [ex_position, ex_stale]\<rparr>)"
    and "positions (ex_account\<lparr>positions := Some [ex_position, ex_stale]\<rparr>) =
          Some [ex_position, ex_stale]"
    by (simp_all add: selectedAccountData_def ex_accounts_def ex_account_def)
  from netPnL_sum [OF this, of ex_parse initial_pnl]
  show ?thesis
    by (simp add: ex_position_def ex_stale_def ex_parse_def)
qed

section \<open>The PnL history\<close>

lemma length_slice_last: "length (slice_last n xs) = min n (length xs)"
  by (simp add: slice_last_def)

lemma slice_last_short: "length xs \<le> n \<Longrightarrow> slice_last n xs = xs"
  by (simp add: slice_last_def)

lemma slice_last_slice_append:
  "slice_last n (slice_last n xs @ ys) = slice_last n (xs @ ys)"
  by (cases "n \<le> length xs") (simp_all add: slice_last_def add.commute)

lemma slice_last_snoc_full:
  "length xs = Suc n \<Longrightarrow> slice_last (Suc n) (xs @ [x]) = tl xs @ [x]"
  by (cases xs) (simp_all add: slice_last_def)

lemma fold_recordSymbol:
  "(case fold (recordSymbol now) es m smb of None \<Rightarrow> [] | Some h \<Rightarrow> h) =
     (if filter (\<lambda>entry. fst entry = smb) es = []
      then (case m smb of None \<Rightarrow> [] | Some h \<Rightarrow> h)
      else slice_last 60 ((case m smb of None \<Rightarrow> [] | Some h \<Rightarrow> h) @
             map (\<lambda>entry. \<lparr>timestamp = now, val = snd entry\<rparr>)
               (filter (\<lambda>entry. fst entry = smb) es)))"
proof (induction es arbitrary: m)
  case Nil
  then show ?case by simp
next
  case (Cons e es)
  show ?case
  proof (cases "fst e = smb")
    case False
    then show ?thesis
      using Cons.IH [of "recordSymbol now e m"] by (simp add: recordSymbol_def Let_def)
  next
    case True
    let ?old = "case m smb of None \<Rightarrow> [] | Some h \<Rightarrow> h"
    let ?item = "\<lparr>timestamp = now, val = snd e\<rparr>"
    let ?rest = "map (\<lambda>entry. \<lparr>timestamp = now, val = snd entry\<rparr>)
                   (filter (\<lambda>entry. fst entry = smb) es)"
    have m': "(case recordSymbol now e m smb of None \<Rightarrow> [] | Some h \<Rightarrow> h) =
                slice_last 60 (?old @ [?item])"
      using True by (simp add: recordSymbol_def Let_def)
    have "(case fold (recordSymbol now) (e # es) m smb of None \<Rightarrow> [] | Some h \<Rightarrow> h) =
          (case fold (recordSymbol now) es (recordSymbol now e m) smb of None \<Rightarrow> [] | Some h \<Rightarrow> h)"
      by simp
    also have "\<dots> = (if filter (\<lambda>entry. fst entry = smb) es = []
                     then slice_last 60 (?old @ [?item])
                     else slice_last 60 (slice_last 60 (?old @ [?item]) @ ?rest))"
      by (simp only: Cons.IH [of "recordSymbol now e m"] m')
    also have "\<dots> = slice_last 60 (?old @ ?item # ?rest)"
      by (simp add: slice_last_slice_append)
    finally show ?thesis using True by simp
  qed
qed

lemma recordAll_pnlHistory:
  "pnlHistory (recordAll steps st) =
     (if net_samples steps = [] then pnlHistory st
      else slice_last 60 (pnlHistory st @ net_samples steps))"
proof (induction steps arbitrary: st)
  case Nil
  then show ?case by (simp add: net_samples_def)
next
  case (Cons step steps)
  obtain now net bySymbol where step: "step = (now, net, bySymbol)"
    by (cases step) auto
  show ?case
  proof (cases "net = 0")
    case True
    then show ?thesis
      using Cons.IH [of st] step by (simp add: recordPnL_def net_samples_def)
  next
    case False
    let ?item = "\<lparr>timestamp = now, val = net\<rparr>"
    have ns: "net_samples (step # steps) = ?item # net_samples steps"
      using False step by (simp add: net_samples_def)
    have h1: "pnlHistory (recordPnL now net bySymbol st) = slice_last 60 (pnlHistory st @ [?item])"
      using False by (simp add: recordPnL_def)
    have "pnlHistory (recordAll (step # steps) st) =
          pnlHistory (recordAll steps (recordPnL now net bySymbol st))"
      using step by simp
    also have "\<dots> = (if net_samples steps = [] then slice_last 60 (pnlHistory st @ [?item])
                     else slice_last 60 (slice_last 60 (pnlHistory st @ [?item]) @ net_samples steps))"
      by (simp only: Cons.IH h1)
    also have "\<dots> = slice_last 60 (pnlHistory st @ ?item # net_samples steps)"
      by (simp add: slice_last_slice_append)
    finally show ?thesis by (simp add: ns)
  qed
qed

lemma recordAll_history_of:
  "history_of (recordAll steps st) smb =
     (if symbol_samples smb steps = [] then history_of st smb
      else slice_last 60 (history_of st smb @ symbol_samples smb steps))"
proof (induction steps arbitrary: st)
  case Nil
  then show ?case by (simp add: symbol_samples_def)
next
  case (Cons step steps)
  obtain now net bySymbol where step: "step = (now, net, bySymbol)"
    by (cases step) auto
  show ?case
  proof (cases "net = 0")
    case True
    then show ?thesis
      using Cons.IH [of st] step by (simp add: recordPnL_def symbol_samples_def)
  next
    case False
    let ?new = "map (\<lambda>entry. \<lparr>timestamp = now, val = snd entry\<rparr>)
                  (filter (\<lambda>entry. fst entry = smb) bySymbol)"
    have ss: "symbol_samples smb (step # steps) = ?new @ symbol_samples smb steps"
      using False step by (simp add: symbol_samples_def)
    have h1: "history_of (recordPnL now net bySymbol st) smb =
                (if ?new = [] then history_of st smb
                 else slice_last 60 (history_of st smb @ ?new))"
      using False fold_recordSymbol [of now bySymbol "pnlHistoryBySymbol st" smb]
      by (simp add: recordPnL_def history_of_def)
    have r: "history_of (recordAll (step # steps) st) smb =
          history_of (recordAll steps (recordPnL now net bySymbol st)) smb"
      using step by simp
    show ?thesis
    proof (cases "?new = []")
      case True
      then show ?thesis
        unfolding r ss Cons.IH h1 by simp
    next
      case False
      then show ?thesis
        unfolding r ss Cons.IH h1 by (simp add: slice_last_slice_append)
    qed
  qed
qed

text \<open>
  Claim C5. After any run of firings from the state at mount, the net-PnL history is the
  last 60 of the samples appended, in order, and so is the history of every symbol; none
  has more than 60 entries. A firing with a net PnL of zero changes nothing. A firing with
  a nonzero net PnL on a history of at most 60 entries appends the sample when there are
  fewer than 60, and otherwise drops the oldest entry and appends the sample.
\<close>

theorem pnl_history_bounded_fifo:
  "pnlHistory (recordAll steps initial_hist) = slice_last 60 (net_samples steps) \<and>
   length (pnlHistory (recordAll steps initial_hist)) \<le> 60 \<and>
   history_of (recordAll steps initial_hist) smb = slice_last 60 (symbol_samples smb steps) \<and>
   length (history_of (recordAll steps initial_hist) smb) \<le> 60 \<and>
   recordPnL now 0 bySymbol st = st \<and>
   (net \<noteq> 0 \<and> length (pnlHistory st) \<le> 60 \<longrightarrow>
      pnlHistory (recordPnL now net bySymbol st) =
        (if length (pnlHistory st) < 60 then pnlHistory st @ [\<lparr>timestamp = now, val = net\<rparr>]
         else tl (pnlHistory st) @ [\<lparr>timestamp = now, val = net\<rparr>]))"
proof (intro conjI impI)
  show a: "pnlHistory (recordAll steps initial_hist) = slice_last 60 (net_samples steps)"
    by (simp add: recordAll_pnlHistory initial_hist_def slice_last_def)
  show "length (pnlHistory (recordAll steps initial_hist)) \<le> 60"
    unfolding a by (simp add: length_slice_last)
  show b: "history_of (recordAll steps initial_hist) smb = slice_last 60 (symbol_samples smb steps)"
  proof -
    have "history_of initial_hist smb = []"
      by (simp add: initial_hist_def history_of_def)
    then show ?thesis
      by (simp add: recordAll_history_of slice_last_def)
  qed
  show "length (history_of (recordAll steps initial_hist) smb) \<le> 60"
    unfolding b by (simp add: length_slice_last)
  show "recordPnL now 0 bySymbol st = st"
    by (simp add: recordPnL_def)
next
  assume h: "net \<noteq> 0 \<and> length (pnlHistory st) \<le> 60"
  show "pnlHistory (recordPnL now net bySymbol st) =
        (if length (pnlHistory st) < 60 then pnlHistory st @ [\<lparr>timestamp = now, val = net\<rparr>]
         else tl (pnlHistory st) @ [\<lparr>timestamp = now, val = net\<rparr>])"
  proof (cases "length (pnlHistory st) < 60")
    case True
    then show ?thesis using h by (simp add: recordPnL_def slice_last_def)
  next
    case False
    with h have "length (pnlHistory st) = Suc 59" by simp
    from slice_last_snoc_full [OF this] False h show ?thesis
      by (simp add: recordPnL_def)
  qed
qed

text \<open>
  C5 on a full history: the oldest sample goes, the new one is last; and on three firings
  of which the second has a net PnL of zero: two samples are kept, for the net PnL and for
  EURUSD.
\<close>

theorem pnl_history_bounded_fifo_witness:
  "pnlHistory (recordPnL 7 1 [] ex_full) =
     replicate 59 \<lparr>timestamp = 2, val = 8\<rparr> @ [\<lparr>timestamp = 7, val = 1\<rparr>] \<and>
   pnlHistory (recordAll ex_steps initial_hist) =
     [\<lparr>timestamp = 5000, val = 3\<rparr>, \<lparr>timestamp = 15000, val = 4\<rparr>] \<and>
   history_of (recordAll ex_steps initial_hist) ''EURUSD'' =
     [\<lparr>timestamp = 5000, val = 1\<rparr>, \<lparr>timestamp = 15000, val = 4\<rparr>]"
proof -
  have "(1::real) \<noteq> 0 \<and> length (pnlHistory ex_full) \<le> 60"
    by (simp add: ex_full_def)
  with pnl_history_bounded_fifo [of ex_steps "''EURUSD''" 7 "[]" ex_full 1]
  show ?thesis
    by (simp add: ex_full_def ex_steps_def net_samples_def symbol_samples_def slice_last_def)
qed

section \<open>Upserts, unknown accounts and removals\<close>

lemma applyPositionUpdate_twice:
  "applyPositionUpdate now patch (applyPositionUpdate now patch pos) =
     (applyPositionUpdate now patch pos)\<lparr>priceChange := Some Null\<rparr>"
  by (simp add: applyPositionUpdate_def spread_position_def newPrice_def Let_def
      split: option.splits)

lemma updateAccountInfo_twice:
  "updateAccountInfo d (updateAccountInfo d s) = updateAccountInfo d s"
  by (simp add: updateAccountInfo_def split: option.splits)

lemma positionRemoved_twice:
  "\<not> (ev_event d = ''positionUpdated'' \<and> ev_position d \<noteq> None) \<Longrightarrow>
   updatePositions now d (updatePositions now d s) = updatePositions now d s"
  by (auto simp add: updatePositions_def positions_or_empty_def)

lemma positionUpdated_twice_erased:
  "erase_priceChange (updatePositions now d (updatePositions now d s)) =
   erase_priceChange (updatePositions now d s)"
proof (cases "ev_event d = ''positionUpdated'' \<and> ev_position d \<noteq> None")
  case False
  then show ?thesis
    using positionRemoved_twice [of d now s] by simp
next
  case True
  then show ?thesis
    by (simp add: updatePositions_def positions_or_empty_def erase_priceChange_def
        applyPositionUpdate_twice)
qed

lemma positionUpdated_twice_null:
  assumes "ev_event d = ''positionUpdated''" and "ev_position d \<noteq> None"
    and "a \<in> set (updatePositions now d (updatePositions now d s))"
    and "Some (accountId a) = ev_accountId d"
    and "p \<in> set (positions_or_empty a)" and "Some (pos_id p) = ev_positionId d"
  shows "priceChange p = Some Null"
  using assms
  by (auto simp add: updatePositions_def positions_or_empty_def applyPositionUpdate_twice
      split: if_splits)

text \<open>
  Claim C6, as the code has it. The upsert of the account metadata applied twice is the
  upsert applied once, and so is every message of \<^verbatim>\<open>updatePositions\<close> other than
  \<^verbatim>\<open>positionUpdated\<close> (the removal of a position among them). A \<^verbatim>\<open>positionUpdated\<close>
  applied twice at the same processing time gives the state of a single application in
  every field but \<^verbatim>\<open>priceChange\<close> (so \<^verbatim>\<open>tickDirection\<close>, \<^verbatim>\<open>isRealData\<close>,
  \<^verbatim>\<open>lastUpdate\<close> and the payload's fields are the same), and after the second
  application \<^verbatim>\<open>priceChange\<close> is null on every position of the account that has the
  message's id.
\<close>

theorem upsert_twice:
  "updateAccountInfo d (updateAccountInfo d s) = updateAccountInfo d s \<and>
   (ev_event d \<noteq> ''positionUpdated'' \<longrightarrow>
      updatePositions now d (updatePositions now d s) = updatePositions now d s) \<and>
   erase_priceChange (updatePositions now d (updatePositions now d s)) =
     erase_priceChange (updatePositions now d s) \<and>
   (ev_event d = ''positionUpdated'' \<and> ev_position d \<noteq> None \<longrightarrow>
      (\<forall>a\<in>set (updatePositions now d (updatePositions now d s)).
         Some (accountId a) = ev_accountId d \<longrightarrow>
           (\<forall>p\<in>set (positions_or_empty a).
              Some (pos_id p) = ev_positionId d \<longrightarrow> priceChange p = Some Null)))"
proof (intro conjI impI ballI)
  show "updateAccountInfo d (updateAccountInfo d s) = updateAccountInfo d s"
    by (rule updateAccountInfo_twice)
  show "erase_priceChange (updatePositions now d (updatePositions now d s)) =
        erase_priceChange (updatePositions now d s)"
    by (rule positionUpdated_twice_erased)
next
  assume "ev_event d \<noteq> ''positionUpdated''"
  then show "updatePositions now d (updatePositions now d s) = updatePositions now d s"
    by (simp add: positionRemoved_twice)
next
  fix a p
  assume "ev_event d = ''positionUpdated'' \<and> ev_position d \<noteq> None"
    and "a \<in> set (updatePositions now d (updatePositions now d s))"
    and "Some (accountId a) = ev_accountId d"
    and "p \<in> set (positions_or_empty a)" and "Some (pos_id p) = ev_positionId d"
  then show "priceChange p = Some Null"
    using positionUpdated_twice_null [where d = d and now = now and a = a and s = s and p = p]
    by simp
qed

text \<open>
  C6 on the two accounts: after the update of the scenario is applied twice,
  \<^verbatim>\<open>priceChange\<close> of the position is null; a removal applied twice is the removal
  applied once.
\<close>

theorem upsert_twice_witness:
  "map (map_option (map priceChange) \<circ> positions)
     (updatePositions 2000 (ex_message ''positionUpdated'' (Some ex_patch))
        (updatePositions 2000 (ex_message ''positionUpdated'' (Some ex_patch)) ex_accounts)) =
     [Some [Some Null, None], Some [None]] \<and>
   updatePositions 2000 (ex_message ''positionRemoved'' None)
     (updatePositions 2000 (ex_message ''positionRemoved'' None) ex_accounts) =
   updatePositions 2000 (ex_message ''positionRemoved'' None) ex_accounts"
proof -
  have "ev_event (ex_message ''positionRemoved'' None) \<noteq> ''positionUpdated''"
    by (simp add: ex_message_def)
  with upsert_twice [of "ex_message ''positionRemoved'' None" ex_accounts 2000]
  have "updatePositions 2000 (ex_message ''positionRemoved'' None)
     (updatePositions 2000 (ex_message ''positionRemoved'' None) ex_accounts) =
   updatePositions 2000 (ex_message ''positionRemoved'' None) ex_accounts"
    by simp
  moreover have "map (map_option (map priceChange) \<circ> positions)
     (updatePositions 2000 (ex_message ''positionUpdated'' (Some ex_patch))
        (updatePositions 2000 (ex_message ''positionUpdated'' (Some ex_patch)) ex_accounts)) =
     [Some [Some Null, None], Some [None]]"
    by (simp add: updatePositions_def positions_or_empty_def applyPositionUpdate_def
        spread_position_def newPrice_def no_patch_def ex_patch_def ex_position_def
        ex_stale_def ex_account_def ex_accounts_def ex_message_def)
  ultimately show ?thesis by simp
qed

text \<open>
  Claim C6 as it is stated fails for \<^verbatim>\<open>positionUpdated\<close>: the update of the scenario
  applied twice is not the update applied once (\<^verbatim>\<open>priceChange\<close> is \<^verbatim>\<open>"up"\<close> after
  the first application and null after the second).
\<close>

theorem positionUpdated_not_idempotent:
  "updatePositions 2000 (ex_message ''positionUpdated'' (Some ex_patch))
     (updatePositions 2000 (ex_message ''positionUpdated'' (Some ex_patch)) [ex_account]) \<noteq>
   updatePositions 2000 (ex_message ''positionUpdated'' (Some ex_patch)) [ex_account]"
  by (simp add: updatePositions_def positions_or_empty_def applyPositionUpdate_def
      spread_position_def newPrice_def no_patch_def ex_patch_def ex_position_def
      ex_account_def ex_message_def)

text \<open>
  Claim C7. A message whose \<^verbatim>\<open>accountId\<close> is the id of no account of the store leaves
  the list of accounts as it is, in \<^verbatim>\<open>updateAccountInfo\<close> and in \<^verbatim>\<open>updatePositions\<close>
  (whatever its event is); both are total functions with no error result.
\<close>

theorem unknown_account_noop:
  assumes "\<forall>a\<in>set s. Some (accountId a) \<noteq> ev_accountId d"
  shows "updateAccountInfo d s = s \<and> updatePositions now d s = s"
  using assms
  by (auto simp add: updateAccountInfo_def updatePositions_def intro!: map_idI)

text \<open>
  C7 on the two accounts A and B, with messages for an account Z: an update of the account
  information, an update of a position and a removal.
\<close>

theorem unknown_account_noop_witness:
  "updateAccountInfo (ex_message ''accountInformationUpdated'' None\<lparr>ev_accountId := Some ''Z''\<rparr>)
     ex_accounts = ex_accounts \<and>
   updatePositions 2000 (ex_message ''positionUpdated'' (Some ex_patch)\<lparr>ev_accountId := Some ''Z''\<rparr>)
     ex_accounts = ex_accounts \<and>
   updatePositions 2000 (ex_message ''positionRemoved'' None\<lparr>ev_accountId := Some ''Z''\<rparr>)
     ex_accounts = ex_accounts"
proof -
  have z: "\<forall>a\<in>set ex_accounts. Some (accountId a) \<noteq> ev_accountId (ex_message ev patch\<lparr>ev_accountId := Some ''Z''\<rparr>)"
    for ev patch
    by (simp add: ex_accounts_def ex_account_def ex_message_def)
  show ?thesis
    using unknown_account_noop [OF z [of "''accountInformationUpdated''" None], of 2000]
      unknown_account_noop [OF z [of "''positionUpdated''" "Some ex_patch"], of 2000]
      unknown_account_noop [OF z [of "''positionRemoved''" None], of 2000]
    by simp
qed

text \<open>
  Claim C8. A \<^verbatim>\<open>positionRemoved\<close> message keeps the accounts in place; an account with
  the message's \<^verbatim>\<open>accountId\<close> keeps exactly its positions with another id, unchanged
  and in order, so that none with the message's \<^verbatim>\<open>positionId\<close> remains; every other
  account is unchanged.
\<close>

theorem positionRemoved_result:
  assumes "ev_event d = ''positionRemoved''"
  shows "list_all2 (\<lambda>a a'. if Some (accountId a) = ev_accountId d
                     then a' = a\<lparr>positions :=
                                   Some (filter (\<lambda>p. Some (pos_id p) \<noteq> ev_positionId d)
                                           (positions_or_empty a))\<rparr>
                     else a' = a)
           s (updatePositions now d s) \<and>
         (\<forall>a'\<in>set (updatePositions now d s). Some (accountId a') = ev_accountId d \<longrightarrow>
            (\<forall>p\<in>set (positions_or_empty a'). Some (pos_id p) \<noteq> ev_positionId d))"
  using assms
  by (auto simp add: updatePositions_def positions_or_empty_def list_all2_map2 list_all2_same)

text \<open>
  C8 on the two accounts: p1 is removed from A, whose other position stays; B, which holds
  a copy of the position under another id, is unchanged.
\<close>

theorem positionRemoved_result_witness:
  "updatePositions 2000 (ex_message ''positionRemoved'' None) ex_accounts =
     [ex_account\<lparr>positions := Some [ex_stale]\<rparr>,
      \<lparr>accountId = ''B'', connected = None, connectedToBroker = None, accountInfo = None,
       positions = Some [ex_position\<lparr>pos_id := ''p3''\<rparr>], orders = None\<rparr>]"
proof -
  have "ev_event (ex_message ''positionRemoved'' None) = ''positionRemoved''"
    by (simp add: ex_message_def)
  from positionRemoved_result [OF this, of ex_accounts 2000]
  show ?thesis
    by (simp add: ex_accounts_def ex_account_def ex_message_def ex_position_def ex_stale_def
        positions_or_empty_def list_all2_Cons1)
qed

section \<open>Refreshing while a refresh is in flight\<close>

text \<open>
  Claim C9 on the code. From the state at mount, a refresh of account A requested by the
  current render sends one request and sets \<^verbatim>\<open>isRefreshing\<close>; a second refresh
  requested by the current render, for account B, is then dropped, as the claim says.
  But an \<^verbatim>\<open>orderCompleted\<close> message for account A that arrives in that state sends a
  second request: the handler of the WebSocket calls the \<^verbatim>\<open>refreshAccountDetails\<close> of
  the first render, whose \<^verbatim>\<open>isRefreshing\<close> is false, and two requests are outstanding.
\<close>

theorem ws_refresh_not_coalesced:
  "refreshFromRender (Some ''A'') initial_refresh =
     \<lparr>isRefreshing = True, detailFetches = [Some ''A'']\<rparr> \<and>
   refreshFromRender (Some ''B'') (refreshFromRender (Some ''A'') initial_refresh) =
     \<lparr>isRefreshing = True, detailFetches = [Some ''A'']\<rparr> \<and>
   onmessage_refresh (ex_message ''orderCompleted'' None)
       (refreshFromRender (Some ''A'') initial_refresh) =
     \<lparr>isRefreshing = True, detailFetches = [Some ''A'', Some ''A'']\<rparr>"
  by (simp add: refreshFromRender_def refreshAccountDetails_def onmessage_refresh_def
      initial_refresh_def ex_message_def)

section \<open>The sparkline\<close>

lemma rounding_between:
  assumes "rounding fl" and "fl a = Fin a'" and "fl b = Fin b'" and "a \<le> x" and "x \<le> b"
  shows "\<exists>r. fl x = Fin r \<and> a' \<le> r \<and> r \<le> b'"
proof -
  from assms(1) have mono: "u \<le> v \<Longrightarrow> js_le (fl u) (fl v)" for u v
    by (simp add: rounding_def)
  from mono [OF \<open>a \<le> x\<close>] mono [OF \<open>x \<le> b\<close>] assms(2,3)
  have "js_le (Fin a') (fl x)" and "js_le (fl x) (Fin b')"
    by simp_all
  then show ?thesis by (cases "fl x") simp_all
qed

lemma foldl_max2_Fin:
  "foldl max2 (Fin a) (map Fin rs) = Fin (Max (insert a (set rs)))"
proof (induction rs arbitrary: a)
  case Nil
  then show ?case by simp
next
  case (Cons r rs)
  have "Max (insert (max a r) (set rs)) = Max (insert a (insert r (set rs)))"
    by (cases "set rs = {}") (simp_all add: max.assoc)
  with Cons show ?case by simp
qed

lemma foldl_min2_Fin:
  "foldl min2 (Fin a) (map Fin rs) = Fin (Min (insert a (set rs)))"
proof (induction rs arbitrary: a)
  case Nil
  then show ?case by simp
next
  case (Cons r rs)
  have "Min (insert (min a r) (set rs)) = Min (insert a (insert r (set rs)))"
    by (cases "set rs = {}") (simp_all add: min.assoc)
  with Cons show ?case by simp
qed

lemma Math_max_Fin: "rs \<noteq> [] \<Longrightarrow> Math_max (map Fin rs) = Fin (Max (set rs))"
  by (cases rs) (simp_all add: Math_max_def foldl_max2_Fin)

lemma Math_min_Fin: "rs \<noteq> [] \<Longrightarrow> Math_min (map Fin rs) = Fin (Min (set rs))"
  by (cases rs) (simp_all add: Math_min_def foldl_min2_Fin)

lemma spark_range_nonzero: "spark_range fl xs \<noteq> Fin 0"
  by (simp add: spark_range_def Let_def)

lemma rounding_round_exact: "rounding round_exact"
  by (simp add: rounding_def round_exact_def)

lemma spark_x:
  assumes "rounding fl" and "index < n" and "2 \<le> n"
  shows "in_0_100 (js_mul fl (js_div fl (Fin (real index)) (Fin (real (n - 1)))) (Fin 100))"
proof -
  have f0: "fl 0 = Fin 0" and f1: "fl 1 = Fin 1" and f100: "fl 100 = Fin 100"
    using assms(1) by (simp_all add: rounding_def)
  have n1: "real (n - 1) \<noteq> 0" using assms(3) by simp
  have "0 \<le> real index / real (n - 1)" by simp
  moreover have "real index / real (n - 1) \<le> 1" using assms(2,3) by simp
  ultimately obtain q where q: "fl (real index / real (n - 1)) = Fin q" "0 \<le> q" "q \<le> 1"
    using rounding_between [OF assms(1) f0 f1] by blast
  have "0 \<le> q * 100" and "q * 100 \<le> 100" using q by simp_all
  then obtain t where t: "fl (q * 100) = Fin t" "0 \<le> t" "t \<le> 100"
    using rounding_between [OF assms(1) f0 f100] by blast
  show ?thesis using n1 q t by (simp add: in_0_100_def)
qed

lemma spark_y:
  assumes "rounding fl" and "v \<in> set rs" and "spark_range fl (map Fin rs) \<noteq> PInf"
  shows "in_0_100 (js_sub fl (Fin 100)
           (js_mul fl (js_div fl (js_sub fl (Fin v) (Math_min (map Fin rs)))
                         (spark_range fl (map Fin rs))) (Fin 100)))"
proof -
  have f0: "fl 0 = Fin 0" and f1: "fl 1 = Fin 1" and f100: "fl 100 = Fin 100"
    using assms(1) by (simp_all add: rounding_def)
  from assms(2) have ne: "rs \<noteq> []" by auto
  let ?mx = "Max (set rs)" and ?mn = "Min (set rs)"
  have mx: "Math_max (map Fin rs) = Fin ?mx" and mn: "Math_min (map Fin rs) = Fin ?mn"
    using ne by (simp_all add: Math_max_Fin Math_min_Fin)
  have lo: "?mn \<le> v" and hi: "v \<le> ?mx" using assms(2) by simp_all
  have mono: "u \<le> w \<Longrightarrow> js_le (fl u) (fl w)" for u w
    using assms(1) by (simp add: rounding_def)
  have "js_le (Fin 0) (fl (?mx - ?mn))" using mono [of 0 "?mx - ?mn"] lo hi f0 by simp
  moreover have "fl (?mx - ?mn) \<noteq> PInf"
    using assms(3) by (auto simp add: spark_range_def mx mn Let_def split: if_splits)
  ultimately obtain r where r: "fl (?mx - ?mn) = Fin r" "0 \<le> r"
    by (cases "fl (?mx - ?mn)") simp_all
  define d where "d = (if r = 0 then 1 else r)"
  have d: "spark_range fl (map Fin rs) = Fin d" "0 < d"
    using r by (simp_all add: spark_range_def mx mn d_def)
  have "0 \<le> v - ?mn" and "v - ?mn \<le> ?mx - ?mn" using lo hi by simp_all
  then obtain a where a: "fl (v - ?mn) = Fin a" "0 \<le> a" "a \<le> r"
    using rounding_between [OF assms(1) f0 r(1)] by blast
  have "a \<le> d" using a r by (simp add: d_def)
  then have "0 \<le> a / d" and "a / d \<le> 1" using a d by simp_all
  then obtain q where q: "fl (a / d) = Fin q" "0 \<le> q" "q \<le> 1"
    using rounding_between [OF assms(1) f0 f1] by blast
  have "0 \<le> q * 100" and "q * 100 \<le> 100" using q by simp_all
  then obtain t where t: "fl (q * 100) = Fin t" "0 \<le> t" "t \<le> 100"
    using rounding_between [OF assms(1) f0 f100] by blast
  have "0 \<le> 100 - t" and "100 - t \<le> 100" using t by simp_all
  then obtain y where y: "fl (100 - t) = Fin y" "0 \<le> y" "y \<le> 100"
    using rounding_between [OF assms(1) f0 f100] by blast
  show ?thesis using mn d a q t y by (simp add: in_0_100_def)
qed

lemma SparkLine_x:
  assumes "2 \<le> length xs" and "rounding fl"
  shows "\<exists>pts. SparkLine fl xs = Some pts \<and> length pts = length xs \<and>
           (\<forall>(x, y)\<in>set pts. in_0_100 x)"
proof -
  let ?f = "\<lambda>(index, v).
              (js_mul fl (js_div fl (Fin (real index)) (Fin (real (length xs - 1)))) (Fin 100),
               js_sub fl (Fin 100)
                 (js_mul fl (js_div fl (js_sub fl v (Math_min xs)) (spark_range fl xs)) (Fin 100)))"
  let ?pts = "map ?f (enumerate 0 xs)"
  have s: "SparkLine fl xs = Some ?pts" using assms(1) by (simp add: SparkLine_def)
  have b: "\<forall>(x, y)\<in>set ?pts. in_0_100 x"
  proof (rule ballI)
    fix pt
    assume "pt \<in> set ?pts"
    then obtain index v where i: "index < length xs" and pt: "pt = ?f (index, v)"
      by (auto simp add: in_set_enumerate_eq)
    show "case pt of (x, y) \<Rightarrow> in_0_100 x"
      unfolding pt prod.case by (rule spark_x [OF assms(2) i assms(1)])
  qed
  have "length ?pts = length xs" by simp
  with s b show ?thesis by blast
qed

lemma SparkLine_xy:
  assumes "rounding fl" and "2 \<le> length rs" and "spark_range fl (map Fin rs) \<noteq> PInf"
  shows "\<exists>pts. SparkLine fl (map Fin rs) = Some pts \<and> length pts = length rs \<and>
           (\<forall>(x, y)\<in>set pts. in_0_100 x \<and> in_0_100 y)"
proof -
  let ?xs = "map Fin rs"
  let ?f = "\<lambda>(index, v).
              (js_mul fl (js_div fl (Fin (real index)) (Fin (real (length ?xs - 1)))) (Fin 100),
               js_sub fl (Fin 100)
                 (js_mul fl (js_div fl (js_sub fl v (Math_min ?xs)) (spark_range fl ?xs)) (Fin 100)))"
  let ?pts = "map ?f (enumerate 0 ?xs)"
  have len: "2 \<le> length ?xs" using assms(2) by simp
  have s: "SparkLine fl ?xs = Some ?pts" using len by (simp add: SparkLine_def)
  have b: "\<forall>(x, y)\<in>set ?pts. in_0_100 x \<and> in_0_100 y"
  proof (rule ballI)
    fix pt
    assume "pt \<in> set ?pts"
    then obtain index where i: "index < length ?xs" and pt: "pt = ?f (index, ?xs ! index)"
      by (auto simp add: in_set_enumerate_eq)
    from i have v: "?xs ! index = Fin (rs ! index)" and m: "rs ! index \<in> set rs" by simp_all
    show "case pt of (x, y) \<Rightarrow> in_0_100 x \<and> in_0_100 y"
      unfolding pt prod.case v
      by (intro conjI spark_x [OF assms(1) i len] spark_y [OF assms(1) m assms(3)])
  qed
  have "length ?pts = length rs" by simp
  with s b show ?thesis by blast
qed

text \<open>
  Claim C10, as the code has it. \<^verbatim>\<open>SparkLine\<close> gives no polyline for fewer than 2
  values; for 2 values or more it gives one point for each value, and neither divisor is
  zero, whatever the values are: the range is never 0 (it is 1 when all values are
  equal) and the number of values minus 1 is not 0. Under a rounding as that of the
  doubles, every x coordinate is between 0 and 100, and when all values are finite and
  the range does not overflow to \<^verbatim>\<open>Infinity\<close>, every y coordinate is between 0 and 100
  too.
\<close>

theorem SparkLine_points:
  "(length xs < 2 \<longrightarrow> SparkLine fl xs = None) \<and>
   spark_range fl xs \<noteq> Fin 0 \<and>
   (2 \<le> length xs \<longrightarrow>
      real (length xs - 1) \<noteq> 0 \<and>
      (\<exists>pts. SparkLine fl xs = Some pts \<and> length pts = length xs)) \<and>
   (rounding fl \<and> 2 \<le> length xs \<longrightarrow>
      (\<exists>pts. SparkLine fl xs = Some pts \<and> length pts = length xs \<and>
         (\<forall>(x, y)\<in>set pts. in_0_100 x))) \<and>
   (rounding fl \<and> 2 \<le> length rs \<and> spark_range fl (map Fin rs) \<noteq> PInf \<longrightarrow>
      (\<exists>pts. SparkLine fl (map Fin rs) = Some pts \<and> length pts = length rs \<and>
         (\<forall>(x, y)\<in>set pts. in_0_100 x \<and> in_0_100 y)))"
proof (intro conjI impI)
  assume "length xs < 2"
  then show "SparkLine fl xs = None" by (simp add: SparkLine_def)
next
  show "spark_range fl xs \<noteq> Fin 0" by (rule spark_range_nonzero)
next
  assume "2 \<le> length xs"
  then show "real (length xs - 1) \<noteq> 0" by simp
next
  assume "2 \<le> length xs"
  then show "\<exists>pts. SparkLine fl xs = Some pts \<and> length pts = length xs"
    by (simp add: SparkLine_def)
next
  assume "rounding fl \<and> 2 \<le> length xs"
  then show "\<exists>pts. SparkLine fl xs = Some pts \<and> length pts = length xs \<and>
         (\<forall>(x, y)\<in>set pts. in_0_100 x)"
    by (simp add: SparkLine_x)
next
  assume "rounding fl \<and> 2 \<le> length rs \<and> spark_range fl (map Fin rs) \<noteq> PInf"
  then show "\<exists>pts. SparkLine fl (map Fin rs) = Some pts \<and> length pts = length rs \<and>
         (\<forall>(x, y)\<in>set pts. in_0_100 x \<and> in_0_100 y)"
    by (simp add: SparkLine_xy)
qed

text \<open>
  C10 on one value (no polyline), on three values, and on two equal values (the range is 1
  and both points are on the bottom line).
\<close>

theorem SparkLine_points_witness:
  "SparkLine round_exact [Fin 7] = None \<and>
   SparkLine round_exact [Fin 1, Fin 3, Fin 2] =
     Some [(Fin 0, Fin 100), (Fin 50, Fin 0), (Fin 100, Fin 50)] \<and>
   SparkLine round_exact [Fin 5, Fin 5] = Some [(Fin 0, Fin 100), (Fin 100, Fin 100)] \<and>
   spark_range round_exact [Fin 5, Fin 5] = Fin 1"
proof -
  have r: "spark_range round_exact [Fin 1, Fin 3, Fin 2] = Fin 2"
    "spark_range round_exact [Fin 5, Fin 5] = Fin 1"
    by (simp_all add: spark_range_def Math_max_def Math_min_def round_exact_def)
  have h: "rounding round_exact \<and> 2 \<le> length [1, 3, 2 :: real] \<and>
      spark_range round_exact (map Fin [1, 3, 2]) \<noteq> PInf"
    by (simp add: r rounding_round_exact)
  have h': "rounding round_exact \<and> 2 \<le> length [5, 5 :: real] \<and>
      spark_range round_exact (map Fin [5, 5]) \<noteq> PInf"
    by (simp add: r rounding_round_exact)
  have "length [Fin 7] < 2" by simp
  with SparkLine_points [of "[Fin 7]" round_exact "[1, 3, 2]"]
    SparkLine_points [of "[Fin 7]" round_exact "[5, 5]"] h h'
  show ?thesis
    by (simp add: SparkLine_def r Math_min_def round_exact_def)
qed

text \<open>
  Claim C10 as it is stated fails on sequences of numbers that hold NaN or whose range
  overflows: on \<^verbatim>\<open>[NaN, 1]\<close> both y coordinates are NaN, and on
  \<^verbatim>\<open>[2**1023, -(2**1023)]\<close> the range is \<^verbatim>\<open>Infinity\<close> and the first y coordinate
  is NaN.
\<close>

theorem SparkLine_nan_overflow:
  "SparkLine round_exact [NaN, Fin 1] = Some [(Fin 0, NaN), (Fin 100, NaN)] \<and>
   SparkLine round_exact [Fin (2 ^ 1023), Fin (- (2 ^ 1023))] =
     Some [(Fin 0, NaN), (Fin 100, Fin 100)]"
  by (simp add: SparkLine_def spark_range_def Math_max_def Math_min_def round_exact_def)

end
